theory Spec2Isabelle
  imports Main "HOL-Library.Word"
begin

section \<open>Data model\<close>

text \<open>
  The Go package \<open>ovs\<close> talks to the kernel through collaborators that live outside
  the two files verified here (the netlink socket, the message builder and parser, the
  datapath objects). The kernel and those collaborators are an abstract world of type
  \<open>'k\<close>; every call into them is a function of the environment record \<open>env\<close> that
  takes the world and returns the updated one. Each such call is appended to a trace, so
  that statements about order, number of calls and resources are statements about lists.
\<close>

type_synonym DatapathID = "32 word"

text \<open>
  Go's \<open>error\<close> interface: the dynamic types the code tells apart.
  \<open>NetlinkError\<close> wraps an errno, \<open>Errno\<close> is \<open>syscall.Errno\<close>,
  \<open>errorString\<close> is what \<open>errors.New\<close> and \<open>fmt.Errorf\<close> build, and
  \<open>externalError\<close> stands for any other error value of a collaborator.
\<close>

datatype error =
    NetlinkError nat
  | Errno nat
  | familyUnavailableError string
  | errorString string
  | externalError nat

definition ENOENT :: nat where
  "ENOENT = 2"

definition NETLINK_NETFILTER :: int where
  "NETLINK_NETFILTER = 12"

definition NETLINK_GENERIC :: int where
  "NETLINK_GENERIC = 16"

definition SOL_NETLINK :: int where
  "SOL_NETLINK = 270"

definition NETLINK_ADD_MEMBERSHIP :: int where
  "NETLINK_ADD_MEMBERSHIP = 1"

definition DATAPATH :: nat where
  "DATAPATH = 0"

definition VPORT :: nat where
  "VPORT = 1"

definition FLOW :: nat where
  "FLOW = 2"

definition PACKET :: nat where
  "PACKET = 3"

definition FAMILY_COUNT :: nat where
  "FAMILY_COUNT = 4"

definition familyNames :: "string list" where
  "familyNames = [''ovs_datapath'', ''ovs_vport'', ''ovs_flow'', ''ovs_packet'']"

text \<open>
  Modelled from the spec: \<open>GenlFamily\<close> is declared outside src/. The spec gives a
  family a numeric id and a registry from multicast group names to group ids; the code
  reads the fields \<open>id\<close> and \<open>mcGroups\<close>.
\<close>

record GenlFamily =
  id_fam :: nat
  mcGroups :: "string \<rightharpoonup> 32 word"

text \<open>The zero value \<open>GenlFamily{}\<close>: id 0 and a nil map.\<close>

definition GenlFamily_zero :: GenlFamily where
  "GenlFamily_zero = \<lparr>id_fam = 0, mcGroups = Map.empty\<rparr>"

text \<open>
  Modelled from the spec: \<open>NetlinkSocket\<close> is declared outside src/; the code reads
  its fields \<open>fd\<close> and \<open>sockType\<close>.
\<close>

record NetlinkSocket =
  fd :: int
  sockType :: int

record Dpif =
  sock :: NetlinkSocket
  families :: "GenlFamily list"

text \<open>
  Modelled from the spec: \<open>DatapathHandle\<close> and the datapath record returned by the
  lookup by id are declared outside src/. The handle is an opaque reference named by
  the interface index; the record carries the fields \<open>Handle\<close> and \<open>Name\<close> that
  \<open>lookupDatapath\<close> reads.
\<close>

datatype DatapathHandle = DatapathHandle (handle_ifindex: DatapathID)

record Datapath =
  Handle :: DatapathHandle
  Name :: string

text \<open>The receive end of the event channel; \<open>None\<close> is Go's nil.\<close>

datatype chan = Chan nat

section \<open>The world outside the package\<close>

datatype event =
    OpenNetlinkSocket_ev int "error + NetlinkSocket"
  | sockClose_ev NetlinkSocket
  | LookupGenlFamily_ev NetlinkSocket string "error + GenlFamily"
  | Once_Do_ev
  | loadOpenvswitchModule_ev
  | SetsockoptInt_ev int int int int
  | LookupDatapath_ev string
  | LookupDatapathByID_ev DatapathID
  | FollowFlows_ev DatapathHandle
  | followStop_ev

text \<open>
  The collaborators, as functions on the world. A function value that Go allows to be
  nil is an option. The stop function that \<open>FollowFlows\<close> returns is a Go function
  value of the collaborator: run on a world it returns (\<open>Inr\<close>) or panics
  (\<open>Inl\<close>), leaving a world either way.

  Modelled from the spec: the delivery of events to the channel happens inside
  \<open>FollowFlows\<close>, outside src/. \<open>delivering\<close> says of a world whether the background
  reader still delivers events; the spec requires of the flow-follow stop function that
  it stops the delivery.
\<close>

record 'k env =
  OpenNetlinkSocket :: "int \<Rightarrow> 'k \<Rightarrow> (error + NetlinkSocket) \<times> 'k"
  sockClose :: "NetlinkSocket \<Rightarrow> 'k \<Rightarrow> error option \<times> 'k"
  LookupGenlFamily :: "NetlinkSocket \<Rightarrow> string \<Rightarrow> 'k \<Rightarrow> (error + GenlFamily) \<times> 'k"
  syscall_Socket :: "'k \<Rightarrow> (error + int) \<times> 'k"
  syscall_ioctl :: "int \<Rightarrow> string \<Rightarrow> 'k \<Rightarrow> 'k"
  syscall_Close :: "int \<Rightarrow> 'k \<Rightarrow> 'k"
  SetsockoptInt :: "int \<Rightarrow> int \<Rightarrow> int \<Rightarrow> int \<Rightarrow> 'k \<Rightarrow> error option \<times> 'k"
  LookupDatapath :: "Dpif \<Rightarrow> string \<Rightarrow> 'k \<Rightarrow> (error + DatapathHandle) \<times> 'k"
  LookupDatapathByID :: "Dpif \<Rightarrow> DatapathID \<Rightarrow> 'k \<Rightarrow> (error + Datapath) \<times> 'k"
  IsNoSuchDatapathError :: "error \<Rightarrow> bool"
  FollowFlows ::
    "DatapathHandle \<Rightarrow> 'k \<Rightarrow> (chan option \<times> ('k \<Rightarrow> 'k + 'k) option \<times> error option) \<times> 'k"
  delivering :: "'k \<Rightarrow> bool"

text \<open>
  The state of the process: the world, the \<open>sync.Once\<close> of the package
  (\<open>triedLoadOpenvswitchModule\<close>, true once its action has run) and the trace.
\<close>

record 'k state =
  kernel :: 'k
  triedLoadOpenvswitchModule :: bool
  trace :: "event list"

definition log :: "event \<Rightarrow> 'k \<Rightarrow> 'k state \<Rightarrow> 'k state" where
  "log ev k s = s\<lparr>kernel := k, trace := trace s @ [ev]\<rparr>"

text \<open>The events a run added to the trace it started from.\<close>

definition added :: "'k state \<Rightarrow> 'k state \<Rightarrow> event list" where
  "added s s' = drop (length (trace s)) (trace s')"

section \<open>Family resolution\<close>

definition Families :: "Dpif \<Rightarrow> GenlFamily list" where
  "Families dpif = families dpif"

definition IsKernelLacksODPError :: "error \<Rightarrow> bool" where
  "IsKernelLacksODPError err = (case err of familyUnavailableError _ \<Rightarrow> True | _ \<Rightarrow> False)"

text \<open>
  \<open>loadOpenvswitchModule\<close>: a socket of its own, the ioctl naming "openvswitch", and
  the deferred close; every error is dropped.
\<close>

definition loadOpenvswitchModule :: "'k env \<Rightarrow> 'k state \<Rightarrow> 'k state" where
  "loadOpenvswitchModule env s =
     (case syscall_Socket env (kernel s) of
        (Inl err, k1) \<Rightarrow> log loadOpenvswitchModule_ev k1 s
      | (Inr s0, k1) \<Rightarrow>
          log loadOpenvswitchModule_ev
            (syscall_Close env s0 (syscall_ioctl env s0 ''openvswitch'' k1)) s)"

text \<open>\<open>triedLoadOpenvswitchModule.Do(f)\<close>: the action runs on the first call only.\<close>

definition Once_Do :: "('k state \<Rightarrow> 'k state) \<Rightarrow> 'k state \<Rightarrow> 'k state" where
  "Once_Do f s =
     (let s1 = s\<lparr>trace := trace s @ [Once_Do_ev]\<rparr>
      in if triedLoadOpenvswitchModule s1 then s1
         else (f s1)\<lparr>triedLoadOpenvswitchModule := True\<rparr>)"

text \<open>One call of \<open>sock.LookupGenlFamily(name)\<close>, logged with its result.\<close>

definition call_LookupGenlFamily ::
  "'k env \<Rightarrow> NetlinkSocket \<Rightarrow> string \<Rightarrow> 'k state \<Rightarrow> (error + GenlFamily) \<times> 'k state" where
  "call_LookupGenlFamily env sk name s =
     (case LookupGenlFamily env sk name (kernel s) of
        (r, k1) \<Rightarrow> (r, log (LookupGenlFamily_ev sk name r) k1 s))"

definition lookupFamily ::
  "'k env \<Rightarrow> NetlinkSocket \<Rightarrow> string \<Rightarrow> 'k state \<Rightarrow> (error + GenlFamily) \<times> 'k state" where
  "lookupFamily env sk name s =
     (case call_LookupGenlFamily env sk name s of
        (Inr family, s1) \<Rightarrow> (Inr family, s1)
      | (Inl err, s1) \<Rightarrow>
          if err = NetlinkError ENOENT then
            (let s2 = Once_Do (loadOpenvswitchModule env) s1
             in case call_LookupGenlFamily env sk name s2 of
                  (Inr family, s3) \<Rightarrow> (Inr family, s3)
                | (Inl err2, s3) \<Rightarrow>
                    if err2 = NetlinkError ENOENT
                    then (Inl (familyUnavailableError name), s3)
                    else (Inl err2, s3))
          else (Inl err, s1))"

section \<open>Session construction\<close>

definition call_OpenNetlinkSocket ::
  "'k env \<Rightarrow> int \<Rightarrow> 'k state \<Rightarrow> (error + NetlinkSocket) \<times> 'k state" where
  "call_OpenNetlinkSocket env netlinkType s =
     (case OpenNetlinkSocket env netlinkType (kernel s) of
        (r, k1) \<Rightarrow> (r, log (OpenNetlinkSocket_ev netlinkType r) k1 s))"

definition call_sockClose ::
  "'k env \<Rightarrow> NetlinkSocket \<Rightarrow> 'k state \<Rightarrow> error option \<times> 'k state" where
  "call_sockClose env sk s =
     (case sockClose env sk (kernel s) of
        (r, k1) \<Rightarrow> (r, log (sockClose_ev sk) k1 s))"

definition call_SetsockoptInt ::
  "'k env \<Rightarrow> int \<Rightarrow> int \<Rightarrow> int \<Rightarrow> int \<Rightarrow> 'k state \<Rightarrow> error option \<times> 'k state" where
  "call_SetsockoptInt env f level opt v s =
     (case SetsockoptInt env f level opt v (kernel s) of
        (r, k1) \<Rightarrow> (r, log (SetsockoptInt_ev f level opt v) k1 s))"

definition Close :: "'k env \<Rightarrow> Dpif \<Rightarrow> 'k state \<Rightarrow> error option \<times> 'k state" where
  "Close env dpif s = call_sockClose env (sock dpif) s"

text \<open>
  The loop of \<open>newDpifType\<close>, from index \<open>i\<close>: resolve \<open>familyNames[i]\<close> into
  slot \<open>i\<close>; on an error close the socket and return the error.
\<close>

function newDpifType_loop ::
  "'k env \<Rightarrow> NetlinkSocket \<Rightarrow> Dpif \<Rightarrow> nat \<Rightarrow> 'k state \<Rightarrow> (error + Dpif) \<times> 'k state" where
  "newDpifType_loop env sk dpif i s =
     (if i < FAMILY_COUNT then
        (case lookupFamily env sk (familyNames ! i) s of
           (Inl err, s1) \<Rightarrow> (Inl err, snd (call_sockClose env sk s1))
         | (Inr family, s1) \<Rightarrow>
             newDpifType_loop env sk
               (dpif\<lparr>families := (families dpif)[i := family]\<rparr>) (i + 1) s1)
      else (Inr dpif, s))"
  by pat_completeness auto
termination
  by (relation "measure (\<lambda>(env, sk, dpif, i, s). FAMILY_COUNT - i)") auto

declare newDpifType_loop.simps [simp del]

definition newDpifType ::
  "'k env \<Rightarrow> int \<Rightarrow> 'k state \<Rightarrow> (error + Dpif) \<times> 'k state" where
  "newDpifType env netlinkType s =
     (case call_OpenNetlinkSocket env netlinkType s of
        (Inl err, s1) \<Rightarrow> (Inl err, s1)
      | (Inr sk, s1) \<Rightarrow>
          newDpifType_loop env sk
            \<lparr>sock = sk, families = replicate FAMILY_COUNT GenlFamily_zero\<rparr> 0 s1)"

definition NewDpif :: "'k env \<Rightarrow> 'k state \<Rightarrow> (error + Dpif) \<times> 'k state" where
  "NewDpif env s = newDpifType env NETLINK_NETFILTER s"

text \<open>
  \<open>getMCGroup\<close> indexes the array \<open>[FAMILY_COUNT]GenlFamily\<close>, whose length the Go type
  fixes; every handle built by \<open>newDpifType\<close> or \<open>Reopen\<close> has that length.
\<close>

definition getMCGroup :: "Dpif \<Rightarrow> nat \<Rightarrow> string \<Rightarrow> error + 32 word" where
  "getMCGroup dpif family name =
     (case mcGroups (families dpif ! family) name of
        None \<Rightarrow>
          Inl (errorString (''No genl MC group '' @ name @ '' in family '' @ familyNames ! family))
      | Some mcGroup \<Rightarrow> Inr mcGroup)"

definition NewDpifOvs :: "'k env \<Rightarrow> bool \<Rightarrow> 'k state \<Rightarrow> (error + Dpif) \<times> 'k state" where
  "NewDpifOvs env follow s =
     (case newDpifType env NETLINK_GENERIC s of
        (Inl err, s1) \<Rightarrow> (Inl err, s1)
      | (Inr dpif, s1) \<Rightarrow>
          (case getMCGroup dpif FLOW ''ovs_flow'' of
             Inl err \<Rightarrow> (Inl err, snd (Close env dpif s1))
           | Inr grp \<Rightarrow>
               if follow then
                 (case call_SetsockoptInt env (fd (sock dpif)) SOL_NETLINK
                         NETLINK_ADD_MEMBERSHIP (uint grp) s1 of
                    (Some err, s2) \<Rightarrow> (Inl err, snd (Close env dpif s2))
                  | (None, s2) \<Rightarrow> (Inr dpif, s2))
               else (Inr dpif, s1)))"

definition Reopen :: "'k env \<Rightarrow> Dpif \<Rightarrow> 'k state \<Rightarrow> (error + Dpif) \<times> 'k state" where
  "Reopen env dpif s =
     (case call_OpenNetlinkSocket env (sockType (sock dpif)) s of
        (Inl err, s1) \<Rightarrow> (Inl err, s1)
      | (Inr sk, s1) \<Rightarrow> (Inr \<lparr>sock = sk, families = families dpif\<rparr>, s1))"

section \<open>Datapath resolution\<close>

text \<open>
  \<open>strconv.ParseUint(name, 10, 32)\<close>: the empty string and any character that is not a
  decimal digit are a syntax error, a value above \<open>2^32 - 1\<close> is a range error; both are
  \<open>None\<close>, since the caller only tests \<open>err == nil\<close>.
\<close>

definition digit_val :: "char \<Rightarrow> nat option" where
  "digit_val c =
     (if 48 \<le> (of_char c :: nat) \<and> (of_char c :: nat) \<le> 57
      then Some (of_char c - 48) else None)"

fun ParseUint_loop :: "string \<Rightarrow> nat \<Rightarrow> nat option" where
  "ParseUint_loop [] n = Some n"
| "ParseUint_loop (c # cs) n =
     (case digit_val c of
        None \<Rightarrow> None
      | Some d \<Rightarrow>
          if n * 10 + d > 4294967295 then None else ParseUint_loop cs (n * 10 + d))"

definition ParseUint :: "string \<Rightarrow> nat option" where
  "ParseUint name = (if name = [] then None else ParseUint_loop name 0)"

definition call_LookupDatapath ::
  "'k env \<Rightarrow> Dpif \<Rightarrow> string \<Rightarrow> 'k state \<Rightarrow> (error + DatapathHandle) \<times> 'k state" where
  "call_LookupDatapath env dpif name s =
     (case LookupDatapath env dpif name (kernel s) of
        (r, k1) \<Rightarrow> (r, log (LookupDatapath_ev name) k1 s))"

definition call_LookupDatapathByID ::
  "'k env \<Rightarrow> Dpif \<Rightarrow> DatapathID \<Rightarrow> 'k state \<Rightarrow> (error + Datapath) \<times> 'k state" where
  "call_LookupDatapathByID env dpif i s =
     (case LookupDatapathByID env dpif i (kernel s) of
        (r, k1) \<Rightarrow> (r, log (LookupDatapathByID_ev i) k1 s))"

text \<open>\<open>errors.New(fmt.Sprintf("Cannot find datapath \"%s\"", name))\<close>\<close>

definition cannot_find_datapath :: "string \<Rightarrow> error" where
  "cannot_find_datapath name =
     errorString (''Cannot find datapath '' @ [CHR 0x22] @ name @ [CHR 0x22])"

definition lookupDatapath ::
  "'k env \<Rightarrow> Dpif \<Rightarrow> string \<Rightarrow> 'k state \<Rightarrow> (error + DatapathHandle \<times> string) \<times> 'k state" where
  "lookupDatapath env dpif name s =
     (case call_LookupDatapath env dpif name s of
        (Inr dph, s1) \<Rightarrow> (Inr (dph, name), s1)
      | (Inl err, s1) \<Rightarrow>
          if \<not> IsNoSuchDatapathError env err then (Inl err, s1)
          else
            (case ParseUint name of
               Some ifindex \<Rightarrow>
                 (case call_LookupDatapathByID env dpif (of_nat ifindex) s1 of
                    (Inr dp, s2) \<Rightarrow> (Inr (Handle dp, Name dp), s2)
                  | (Inl err2, s2) \<Rightarrow>
                      if \<not> IsNoSuchDatapathError env err2 then (Inl err2, s2)
                      else (Inl (cannot_find_datapath name), s2))
             | None \<Rightarrow> (Inl (cannot_find_datapath name), s1)))"

section \<open>Following flows\<close>

text \<open>
  A Go function value run on a state either returns or panics (calling a nil function
  value panics); both carry the state reached.
\<close>

datatype 'k run = Returns "'k state" | Panics "'k state"

definition call_FollowFlows ::
  "'k env \<Rightarrow> DatapathHandle \<Rightarrow> 'k state \<Rightarrow>
     (chan option \<times> ('k \<Rightarrow> 'k + 'k) option \<times> error option) \<times> 'k state" where
  "call_FollowFlows env dp s =
     (case FollowFlows env dp (kernel s) of
        (r, k1) \<Rightarrow> (r, log (FollowFlows_ev dp) k1 s))"

text \<open>
  The closure \<open>func() { stop(); dpif.Close() }\<close>. Calling a nil \<open>stop\<close> panics
  before any call is made; a \<open>stop\<close> that panics ends the closure after that call and
  before the close; otherwise the close follows, and its error result is dropped.
\<close>

definition stop_closure ::
  "'k env \<Rightarrow> ('k \<Rightarrow> 'k + 'k) option \<Rightarrow> Dpif \<Rightarrow> 'k state \<Rightarrow> 'k run" where
  "stop_closure env stop dpif s =
     (case stop of
        None \<Rightarrow> Panics s
      | Some f \<Rightarrow>
          (case f (kernel s) of
             Inl k \<Rightarrow> Panics (log followStop_ev k s)
           | Inr k \<Rightarrow> Returns (snd (Close env dpif (log followStop_ev k s)))))"



definition FollowOvsFlows ::
  "'k env \<Rightarrow> 'k state \<Rightarrow>
     (chan option \<times> ('k state \<Rightarrow> 'k run) option \<times> error option) \<times> 'k state" where
  "FollowOvsFlows env s =
     (case NewDpifOvs env True s of
        (Inl err, s1) \<Rightarrow> ((None, None, Some err), s1)
      | (Inr dpif, s1) \<Rightarrow>
          (case lookupDatapath env dpif ''ovs-system'' s1 of
             (Inl err, s2) \<Rightarrow> ((None, None, Some err), s2)
           | (Inr (dp, canonical), s2) \<Rightarrow>
               (case call_FollowFlows env dp s2 of
                  ((res, stop, err), s3) \<Rightarrow>
                    ((res, Some (stop_closure env stop dpif), err), s3))))"

text \<open>
  The sockets a trace leaves open: those an \<open>OpenNetlinkSocket\<close> returned and no later
  \<open>Close\<close> named.
\<close>

fun open_sockets :: "event list \<Rightarrow> NetlinkSocket list \<Rightarrow> NetlinkSocket list" where
  "open_sockets [] acc = acc"
| "open_sockets (OpenNetlinkSocket_ev t (Inr sk) # evs) acc = open_sockets evs (acc @ [sk])"
| "open_sockets (sockClose_ev sk # evs) acc = open_sockets evs (removeAll sk acc)"
| "open_sockets (ev # evs) acc = open_sockets evs acc"

text \<open>How often a trace closes a socket.\<close>

definition closes :: "NetlinkSocket \<Rightarrow> event list \<Rightarrow> nat" where
  "closes sk evs = length (filter (\<lambda>ev. ev = sockClose_ev sk) evs)"

text \<open>The calls of \<open>LookupGenlFamily\<close> in a trace, and the families the successful ones returned.\<close>

fun is_query :: "event \<Rightarrow> bool" where
  "is_query (LookupGenlFamily_ev sk name r) = True"
| "is_query ev = False"



section \<open>Message headers\<close>

text \<open>
  Modelled from the spec: the message builder and parser are declared outside src/. The
  spec gives the builder "grow to the next aligned offset and reserve N bytes" and the
  parser "advance to the next aligned offset and consume N bytes (fails if the buffer is
  exhausted)"; a header is a fixed-size record placed at that offset, and the parser
  checks the command of the generic envelope against the expected command and, where one
  is given, an alternative. The byte order within the header is the machine's
  (little-endian here).
\<close>

record NlMsgBuilder =
  buf :: "8 word list"

record NlMsgParser =
  data :: "8 word list"
  pos :: nat

record OvsHeader =
  DpIfIndex :: "32 word"

record GenlMsghdr =
  Cmd :: "8 word"
  Version :: "8 word"

definition NLMSG_ALIGNTO :: nat where
  "NLMSG_ALIGNTO = 4"

definition SizeofOvsHeader :: nat where
  "SizeofOvsHeader = 4"

definition SizeofGenlMsghdr :: nat where
  "SizeofGenlMsghdr = 4"

definition align :: "nat \<Rightarrow> nat \<Rightarrow> nat" where
  "align n a = ((n + a - 1) div a) * a"

text \<open>
  Modelled from the spec: \<open>AlignGrow\<close> of the builder is outside src/: "grow to the
  next aligned offset and reserve N bytes"; it returns the offset.
\<close>

definition AlignGrow :: "nat \<Rightarrow> nat \<Rightarrow> NlMsgBuilder \<Rightarrow> nat \<times> NlMsgBuilder" where
  "AlignGrow a n b =
     (let p = align (length (buf b)) a
      in (p, b\<lparr>buf := buf b @ replicate (p + n - length (buf b)) 0\<rparr>))"

text \<open>
  Modelled from the spec: \<open>AlignAdvance\<close> of the parser is outside src/: "advance to
  the next aligned offset and consume N bytes (fails if buffer exhausted)"; it returns the
  offset.
\<close>

definition AlignAdvance :: "nat \<Rightarrow> nat \<Rightarrow> NlMsgParser \<Rightarrow> error + nat \<times> NlMsgParser" where
  "AlignAdvance a n m =
     (let p = align (pos m) a
      in if p + n > length (data m) then Inl (errorString ''netlink message truncated'')
         else Inr (p, m\<lparr>pos := p + n\<rparr>))"

text \<open>
  Modelled from the spec: \<open>ovsHeaderAt\<close> and \<open>genlMsghdrAt\<close> are outside src/: views
  of the header record at an offset of the buffer. \<open>store32\<close> and \<open>load32\<close> are the
  write and the read of the 32-bit field through the view.
\<close>

definition store32 :: "8 word list \<Rightarrow> nat \<Rightarrow> 32 word \<Rightarrow> 8 word list" where
  "store32 bs p w =
     bs[p := ucast w, p + 1 := ucast (drop_bit 8 w),
        p + 2 := ucast (drop_bit 16 w), p + 3 := ucast (drop_bit 24 w)]"

definition load32 :: "8 word list \<Rightarrow> nat \<Rightarrow> 32 word" where
  "load32 bs p =
     or (ucast (bs ! p))
       (or (push_bit 8 (ucast (bs ! (p + 1))))
         (or (push_bit 16 (ucast (bs ! (p + 2)))) (push_bit 24 (ucast (bs ! (p + 3))))))"

definition ovsHeaderAt :: "8 word list \<Rightarrow> nat \<Rightarrow> OvsHeader" where
  "ovsHeaderAt bs p = \<lparr>DpIfIndex = load32 bs p\<rparr>"

definition genlMsghdrAt :: "8 word list \<Rightarrow> nat \<Rightarrow> GenlMsghdr" where
  "genlMsghdrAt bs p = \<lparr>Cmd = bs ! p, Version = bs ! (p + 1)\<rparr>"

text \<open>
  Modelled from the spec: \<open>CheckGenlMsghdr\<close> is outside src/: the command of the
  generic header is accepted when it equals the expected command or the alternative the
  caller names; the caller passes \<open>-1\<close>, which no command equals, for "no alternative".
\<close>

definition CheckGenlMsghdr ::
  "NlMsgParser \<Rightarrow> int \<Rightarrow> int \<Rightarrow> error + GenlMsghdr \<times> NlMsgParser" where
  "CheckGenlMsghdr m cmd altCmd =
     (case AlignAdvance NLMSG_ALIGNTO SizeofGenlMsghdr m of
        Inl err \<Rightarrow> Inl err
      | Inr (p, m1) \<Rightarrow>
          (let gh = genlMsghdrAt (data m1) p
           in if uint (Cmd gh) = cmd \<or> uint (Cmd gh) = altCmd then Inr (gh, m1)
              else Inl (errorString ''generic netlink response has wrong cmd'')))"

text \<open>
  \<open>putOvsHeader\<close>: the conversion \<open>int32(ifindex)\<close> keeps the 32 bits, and the store
  through the header pointer writes them into the buffer at \<open>pos\<close>.
\<close>

definition putOvsHeader :: "NlMsgBuilder \<Rightarrow> DatapathID \<Rightarrow> NlMsgBuilder" where
  "putOvsHeader nlmsg ifindex =
     (case AlignGrow NLMSG_ALIGNTO SizeofOvsHeader nlmsg of
        (p, nlmsg1) \<Rightarrow> nlmsg1\<lparr>buf := store32 (buf nlmsg1) p (ucast ifindex)\<rparr>)"

definition takeOvsHeader :: "NlMsgParser \<Rightarrow> error + OvsHeader \<times> NlMsgParser" where
  "takeOvsHeader nlmsg =
     (case AlignAdvance NLMSG_ALIGNTO SizeofOvsHeader nlmsg of
        Inl err \<Rightarrow> Inl err
      | Inr (p, nlmsg1) \<Rightarrow> Inr (ovsHeaderAt (data nlmsg1) p, nlmsg1))"

definition datapathID :: "OvsHeader \<Rightarrow> DatapathID" where
  "datapathID ovshdr = ucast (DpIfIndex ovshdr)"

text \<open>
  What \<open>checkNlMsgHeaders\<close> takes from outside src/: the check of the netlink header
  against a family id, and the three "new" commands of the kernel's interface.
\<close>

record genl_env =
  ExpectNlMsghdr :: "nat \<Rightarrow> NlMsgParser \<Rightarrow> error + NlMsgParser"
  OVS_DP_CMD_NEW :: int
  OVS_VPORT_CMD_NEW :: int
  OVS_FLOW_CMD_NEW :: int

text \<open>
  \<open>checkNlMsgHeaders\<close>; \<open>None\<close> is the panic of indexing the array of families out of
  range.
\<close>

definition checkNlMsgHeaders ::
  "genl_env \<Rightarrow> Dpif \<Rightarrow> NlMsgParser \<Rightarrow> int \<Rightarrow> int \<Rightarrow>
     (error + GenlMsghdr \<times> OvsHeader \<times> NlMsgParser) option" where
  "checkNlMsgHeaders g dpif msg family cmd =
     (if family < 0 \<or> int (length (families dpif)) \<le> family then None
      else Some
        (case ExpectNlMsghdr g (id_fam (families dpif ! nat family)) msg of
           Inl err \<Rightarrow> Inl err
         | Inr msg1 \<Rightarrow>
             (case (if family = int DATAPATH then CheckGenlMsghdr msg1 cmd (OVS_DP_CMD_NEW g)
                    else if family = int VPORT then CheckGenlMsghdr msg1 cmd (OVS_VPORT_CMD_NEW g)
                    else if family = int FLOW then CheckGenlMsghdr msg1 cmd (OVS_FLOW_CMD_NEW g)
                    else CheckGenlMsghdr msg1 cmd (- 1)) of
                Inl err \<Rightarrow> Inl err
              | Inr (genlhdr, msg2) \<Rightarrow>
                  (case takeOvsHeader msg2 of
                     Inl err \<Rightarrow> Inl err
                   | Inr (ovshdr, msg3) \<Rightarrow> Inr (genlhdr, ovshdr, msg3)))))"

section \<open>A small kernel to run the code on\<close>

text \<open>
  A world for concrete runs: the openvswitch module is loaded or not, the ioctl of the
  autoload probe loads it or not, descriptors are handed out in order, and the datapaths
  are a list of names with their interface indices. For the following of flows:
  \<open>FollowFlows\<close> fails (with a nil channel and a nil stop function) or starts the
  reader; the stop function stops a running reader, and when none runs it returns or
  panics (as Go's close of a closed channel does), by \<open>stop_repeatable\<close>.
\<close>

record kfollow =
  follow_fails :: bool
  following :: bool
  stop_repeatable :: bool

record kern =
  module_loaded :: bool
  autoload :: bool
  next_fd :: int
  datapaths :: "(string \<times> DatapathID) list"
  follow :: kfollow

definition ENODEV :: nat where
  "ENODEV = 19"

definition EPERM :: nat where
  "EPERM = 1"

definition kern_stop :: "kern \<Rightarrow> kern + kern" where
  "kern_stop k =
     (if following (follow k) then Inr (k\<lparr>follow := (follow k)\<lparr>following := False\<rparr>\<rparr>)
      else if stop_repeatable (follow k) then Inr k
      else Inl k)"

definition kern_env :: "kern env" where
  "kern_env = \<lparr>
     OpenNetlinkSocket = (\<lambda>t k. (Inr \<lparr>fd = next_fd k, sockType = t\<rparr>, k\<lparr>next_fd := next_fd k + 1\<rparr>)),
     sockClose = (\<lambda>sk k. (None, k)),
     LookupGenlFamily = (\<lambda>sk name k.
        if module_loaded k then (Inr \<lparr>id_fam = length name, mcGroups = [name \<mapsto> 5]\<rparr>, k)
        else (Inl (NetlinkError ENOENT), k)),
     syscall_Socket = (\<lambda>k. (Inr (next_fd k), k\<lparr>next_fd := next_fd k + 1\<rparr>)),
     syscall_ioctl = (\<lambda>f name k. if autoload k then k\<lparr>module_loaded := True\<rparr> else k),
     syscall_Close = (\<lambda>f k. k),
     SetsockoptInt = (\<lambda>f level opt v k. (None, k)),
     LookupDatapath = (\<lambda>dpif name k.
        case map_of (datapaths k) name of
          None \<Rightarrow> (Inl (NetlinkError ENODEV), k)
        | Some i \<Rightarrow> (Inr (DatapathHandle i), k)),
     LookupDatapathByID = (\<lambda>dpif i k.
        case find (\<lambda>d. snd d = i) (datapaths k) of
          None \<Rightarrow> (Inl (NetlinkError ENODEV), k)
        | Some d \<Rightarrow> (Inr \<lparr>Handle = DatapathHandle (snd d), Name = fst d\<rparr>, k)),
     IsNoSuchDatapathError = (\<lambda>err. err = NetlinkError ENODEV),
     FollowFlows = (\<lambda>dp k.
        if follow_fails (follow k) then ((None, None, Some (NetlinkError EPERM)), k)
        else ((Some (Chan 0), Some kern_stop, None),
              k\<lparr>follow := (follow k)\<lparr>following := True\<rparr>\<rparr>)),
     delivering = (\<lambda>k. following (follow k))\<rparr>"

definition kern_follow0 :: kfollow where
  "kern_follow0 = \<lparr>follow_fails = False, following = False, stop_repeatable = False\<rparr>"

definition kern_state :: "bool \<Rightarrow> bool \<Rightarrow> (string \<times> DatapathID) list \<Rightarrow> kern state" where
  "kern_state loaded auto dps =
     \<lparr>kernel = \<lparr>module_loaded = loaded, autoload = auto, next_fd = 3, datapaths = dps,
                 follow = kern_follow0\<rparr>,
      triedLoadOpenvswitchModule = False, trace = []\<rparr>"



text \<open>
  For concrete runs of \<open>checkNlMsgHeaders\<close>: a check of the netlink header that
  consumes its 16 bytes and compares the 16-bit type at offset 4 with the family id; the
  three "new" commands are 1, as in the kernel's interface. \<open>reply_msg fid c i\<close> is a
  reply of family id \<open>fid\<close> with command \<open>c\<close> and interface index \<open>i\<close> in the
  low byte.
\<close>

definition kern_genl :: genl_env where
  "kern_genl = \<lparr>
     ExpectNlMsghdr = (\<lambda>fid m.
        case AlignAdvance NLMSG_ALIGNTO 16 m of
          Inl err \<Rightarrow> Inl err
        | Inr (p, m1) \<Rightarrow>
            if unat (data m ! (p + 4)) + 256 * unat (data m ! (p + 5)) = fid then Inr m1
            else Inl (errorString ''netlink response has wrong type'')),
     OVS_DP_CMD_NEW = 1,
     OVS_VPORT_CMD_NEW = 1,
     OVS_FLOW_CMD_NEW = 1\<rparr>"

definition reply_msg :: "8 word \<Rightarrow> 8 word \<Rightarrow> 8 word \<Rightarrow> NlMsgParser" where
  "reply_msg fid c i =
     \<lparr>data = [24, 0, 0, 0, fid, 0, 0, 0, 0, 0, 0, 0, 0, 0, 0, 0, c, 1, 0, 0, i, 0, 0, 0],
      pos = 0\<rparr>"

definition kern_dpif :: Dpif where
  "kern_dpif =
     \<lparr>sock = \<lparr>fd = 3, sockType = NETLINK_GENERIC\<rparr>,
      families = map (\<lambda>name. \<lparr>id_fam = length name, mcGroups = [name \<mapsto> 5]\<rparr>) familyNames\<rparr>"

section \<open>Traces of the calls\<close>

lemma added_append: "trace s' = trace s @ evs \<Longrightarrow> added s s' = evs"
  by (simp add: added_def)

lemma trace_log: "trace (log ev k s) = trace s @ [ev]"
  by (simp add: log_def)

lemma trace_call_LookupGenlFamily:
  "trace (snd (call_LookupGenlFamily env sk name s)) =
     trace s @ [LookupGenlFamily_ev sk name (fst (call_LookupGenlFamily env sk name s))]"
  by (simp add: call_LookupGenlFamily_def trace_log split: prod.splits)

lemma trace_loadOpenvswitchModule:
  "trace (loadOpenvswitchModule env s) = trace s @ [loadOpenvswitchModule_ev]"
  by (simp add: loadOpenvswitchModule_def trace_log split: prod.splits sum.splits)

lemma trace_Once_Do:
  "trace (Once_Do (loadOpenvswitchModule env) s) =
     trace s @ (if triedLoadOpenvswitchModule s then [Once_Do_ev]
                else [Once_Do_ev, loadOpenvswitchModule_ev])"
  by (simp add: Once_Do_def Let_def trace_loadOpenvswitchModule)

lemma trace_call_LookupDatapath:
  "trace (snd (call_LookupDatapath env dpif name s)) = trace s @ [LookupDatapath_ev name]"
  by (simp add: call_LookupDatapath_def trace_log split: prod.splits)

lemma trace_call_LookupDatapathByID:
  "trace (snd (call_LookupDatapathByID env dpif i s)) = trace s @ [LookupDatapathByID_ev i]"
  by (simp add: call_LookupDatapathByID_def trace_log split: prod.splits)

lemma trace_call_OpenNetlinkSocket:
  "trace (snd (call_OpenNetlinkSocket env t s)) =
     trace s @ [OpenNetlinkSocket_ev t (fst (call_OpenNetlinkSocket env t s))]"
  by (simp add: call_OpenNetlinkSocket_def trace_log split: prod.splits)


lemma trace_call_SetsockoptInt:
  "trace (snd (call_SetsockoptInt env f level opt v s)) =
     trace s @ [SetsockoptInt_ev f level opt v]"
  by (simp add: call_SetsockoptInt_def trace_log split: prod.splits)

lemma trace_call_FollowFlows:
  "trace (snd (call_FollowFlows env dp s)) = trace s @ [FollowFlows_ev dp]"
  by (simp add: call_FollowFlows_def trace_log split: prod.splits)

section \<open>Family resolution: one retry after the autoload guard\<close>

text \<open>The body of \<open>lookupFamily\<close> in terms of its two possible queries.\<close>

lemma lookupFamily_eq:
  "lookupFamily env sk name s =
     (let q1 = call_LookupGenlFamily env sk name s;
          q2 = call_LookupGenlFamily env sk name (Once_Do (loadOpenvswitchModule env) (snd q1))
      in if fst q1 = Inl (NetlinkError ENOENT)
         then (if fst q2 = Inl (NetlinkError ENOENT)
               then Inl (familyUnavailableError name) else fst q2, snd q2)
         else q1)"
proof (cases "call_LookupGenlFamily env sk name s")
  case (Pair r1 s1)
  show ?thesis
  proof (cases "call_LookupGenlFamily env sk name (Once_Do (loadOpenvswitchModule env) s1)")
    case q2: (Pair r2 s2)
    show ?thesis
      using Pair q2 by (cases r1; cases r2) (simp_all add: lookupFamily_def Let_def)
  qed
qed

lemma IsKernelLacksODPError_iff:
  "IsKernelLacksODPError e = (\<exists>n. e = familyUnavailableError n)"
  by (cases e) (simp_all add: IsKernelLacksODPError_def)

text \<open>
  C4. \<open>lookupFamily\<close> queries the transport once. When the first query fails with
  \<open>NetlinkError ENOENT\<close>, and only then, it calls the once-only autoload guard (one
  \<open>Do\<close>) and repeats the query once: the trace gains exactly the two queries, and the
  result is the second query's, except that a second \<open>ENOENT\<close> becomes
  \<open>familyUnavailableError name\<close>. With any other first result the trace gains the one
  query alone and the result is the first query's, unchanged.
  \<open>IsKernelLacksODPError\<close> holds of \<open>familyUnavailableError\<close> values and of no other
  error.
\<close>

theorem lookupFamily_retries_once_on_ENOENT:
  "let q1 = call_LookupGenlFamily env sk name s;
       q2 = call_LookupGenlFamily env sk name (Once_Do (loadOpenvswitchModule env) (snd q1));
       r = lookupFamily env sk name s
   in (if fst q1 = Inl (NetlinkError ENOENT)
       then filter is_query (added s (snd r)) =
              [LookupGenlFamily_ev sk name (fst q1), LookupGenlFamily_ev sk name (fst q2)]
          \<and> count_list (added s (snd r)) Once_Do_ev = 1
          \<and> fst r = (if fst q2 = Inl (NetlinkError ENOENT)
                      then Inl (familyUnavailableError name) else fst q2)
       else added s (snd r) = [LookupGenlFamily_ev sk name (fst q1)] \<and> fst r = fst q1)
      \<and> IsKernelLacksODPError (familyUnavailableError name)
      \<and> IsKernelLacksODPError e = (\<exists>n. e = familyUnavailableError n)"
proof -
  define q1 where "q1 = call_LookupGenlFamily env sk name s"
  define q2 where
    "q2 = call_LookupGenlFamily env sk name (Once_Do (loadOpenvswitchModule env) (snd q1))"
  have t1: "trace (snd q1) = trace s @ [LookupGenlFamily_ev sk name (fst q1)]"
    unfolding q1_def by (rule trace_call_LookupGenlFamily)
  have t2: "trace (snd q2) =
      trace s @ [LookupGenlFamily_ev sk name (fst q1)] @
        (if triedLoadOpenvswitchModule (snd q1) then [Once_Do_ev]
         else [Once_Do_ev, loadOpenvswitchModule_ev]) @ [LookupGenlFamily_ev sk name (fst q2)]"
    unfolding q2_def by (simp add: trace_call_LookupGenlFamily trace_Once_Do t1)
  have r: "lookupFamily env sk name s =
      (if fst q1 = Inl (NetlinkError ENOENT)
       then (if fst q2 = Inl (NetlinkError ENOENT)
             then Inl (familyUnavailableError name) else fst q2, snd q2)
       else q1)"
    unfolding q1_def q2_def by (simp add: lookupFamily_eq Let_def)
  have a1: "added s (snd q1) = [LookupGenlFamily_ev sk name (fst q1)]"
    by (rule added_append) (rule t1)
  have a2: "added s (snd q2) = [LookupGenlFamily_ev sk name (fst q1)] @
        (if triedLoadOpenvswitchModule (snd q1) then [Once_Do_ev]
         else [Once_Do_ev, loadOpenvswitchModule_ev]) @ [LookupGenlFamily_ev sk name (fst q2)]"
    by (rule added_append) (rule t2)
  show ?thesis
    unfolding Let_def q1_def [symmetric] q2_def [symmetric] r
    by (simp add: a1 a2 IsKernelLacksODPError_iff)
qed

section \<open>Datapath resolution: by name, then by id\<close>

text \<open>\<open>ParseUint\<close> on the edges of \<open>strconv.ParseUint(s, 10, 32)\<close>.\<close>

lemma ParseUint_examples:
  "ParseUint '''' = None"
  "ParseUint ''0042'' = Some 42"
  "ParseUint ''+1'' = None"
  "ParseUint ''4294967295'' = Some 4294967295"
  "ParseUint ''4294967296'' = None"
  by (simp_all add: ParseUint_def digit_val_def)

lemma lookupDatapath_eq:
  "lookupDatapath env dpif name s =
     (let q1 = call_LookupDatapath env dpif name s
      in case fst q1 of
           Inr dph \<Rightarrow> (Inr (dph, name), snd q1)
         | Inl err \<Rightarrow>
             if \<not> IsNoSuchDatapathError env err then (Inl err, snd q1)
             else
               (case ParseUint name of
                  None \<Rightarrow> (Inl (cannot_find_datapath name), snd q1)
                | Some ifindex \<Rightarrow>
                    (let q2 = call_LookupDatapathByID env dpif (of_nat ifindex) (snd q1)
                     in case fst q2 of
                          Inr dp \<Rightarrow> (Inr (Handle dp, Name dp), snd q2)
                        | Inl err2 \<Rightarrow>
                            (Inl (if IsNoSuchDatapathError env err2
                                  then cannot_find_datapath name else err2), snd q2))))"
  by (simp add: lookupDatapath_def Let_def split: prod.splits sum.splits option.splits)

text \<open>
  C5. \<open>lookupDatapath\<close> looks the identifier up by name first and returns at once when
  that succeeds (one call in the trace). A failure that is not "no such datapath" is
  returned unchanged, with no lookup by id. Otherwise, when the identifier does not parse
  as an unsigned 32-bit decimal, the result is the error "Cannot find datapath" naming the
  identifier; when it parses, the lookup by id is called once (second call in the trace):
  its success returns the datapath's own handle and recorded name, its failure is returned
  unchanged unless it is "no such datapath", which gives the same "Cannot find datapath"
  error as the unparsable case.
\<close>

theorem lookupDatapath_name_then_id:
  "let q1 = call_LookupDatapath env dpif name s;
       r = lookupDatapath env dpif name s
   in case fst q1 of
        Inr dph \<Rightarrow> fst r = Inr (dph, name) \<and> added s (snd r) = [LookupDatapath_ev name]
      | Inl err \<Rightarrow>
          if \<not> IsNoSuchDatapathError env err
          then fst r = Inl err \<and> added s (snd r) = [LookupDatapath_ev name]
          else
            (case ParseUint name of
               None \<Rightarrow>
                 fst r = Inl (cannot_find_datapath name)
                 \<and> added s (snd r) = [LookupDatapath_ev name]
             | Some ifindex \<Rightarrow>
                 (let q2 = call_LookupDatapathByID env dpif (of_nat ifindex) (snd q1)
                  in added s (snd r) =
                       [LookupDatapath_ev name, LookupDatapathByID_ev (of_nat ifindex)]
                     \<and> (case fst q2 of
                           Inr dp \<Rightarrow> fst r = Inr (Handle dp, Name dp)
                         | Inl err2 \<Rightarrow>
                             fst r = Inl (if IsNoSuchDatapathError env err2
                                          then cannot_find_datapath name else err2))))"
proof -
  define q1 where "q1 = call_LookupDatapath env dpif name s"
  have a1: "added s (snd q1) = [LookupDatapath_ev name]"
    unfolding q1_def by (rule added_append) (rule trace_call_LookupDatapath)
  have a2: "added s (snd (call_LookupDatapathByID env dpif i (snd q1))) =
      [LookupDatapath_ev name, LookupDatapathByID_ev i]" for i
    unfolding q1_def
    by (rule added_append) (simp add: trace_call_LookupDatapathByID trace_call_LookupDatapath)
  show ?thesis
    unfolding lookupDatapath_eq Let_def q1_def [symmetric]
    by (simp add: a1 a2 split: sum.splits option.splits)
qed

text \<open>
  C10. When the lookup by name succeeds, \<open>lookupDatapath\<close> returns the identifier it
  was given as the canonical name; the datapath's recorded name is used on the path
  through the lookup by id only.
\<close>

theorem lookupDatapath_by_name_returns_identifier:
  "fst (call_LookupDatapath env dpif name s) = Inr dph \<Longrightarrow>
     fst (lookupDatapath env dpif name s) = Inr (dph, name)"
  by (simp add: lookupDatapath_eq Let_def)

section \<open>Reopening a session\<close>

text \<open>
  C7. \<open>Reopen\<close> makes one call, \<open>OpenNetlinkSocket\<close> with the socket type of the
  handle, and no call of \<open>LookupGenlFamily\<close>. When the socket opens, the new handle holds
  that socket and its \<open>Families()\<close> equals the original handle's; when it does not, the
  error is returned.
\<close>

theorem Reopen_copies_families:
  "let q = call_OpenNetlinkSocket env (sockType (sock dpif)) s;
       r = Reopen env dpif s
   in added s (snd r) = [OpenNetlinkSocket_ev (sockType (sock dpif)) (fst q)]
      \<and> filter is_query (added s (snd r)) = []
      \<and> (case fst r of
            Inl err \<Rightarrow> fst q = Inl err
          | Inr dpif' \<Rightarrow> fst q = Inr (sock dpif') \<and> Families dpif' = Families dpif)"
proof -
  define q where "q = call_OpenNetlinkSocket env (sockType (sock dpif)) s"
  have a: "added s (snd q) = [OpenNetlinkSocket_ev (sockType (sock dpif)) (fst q)]"
    unfolding q_def by (rule added_append) (rule trace_call_OpenNetlinkSocket)
  have r: "Reopen env dpif s =
      (case fst q of Inl err \<Rightarrow> (Inl err, snd q)
       | Inr sk \<Rightarrow> (Inr \<lparr>sock = sk, families = families dpif\<rparr>, snd q))"
    unfolding q_def by (simp add: Reopen_def split: prod.splits sum.splits)
  show ?thesis
    unfolding Let_def q_def [symmetric] r
    by (simp add: a Families_def split: sum.splits)
qed

section \<open>Session construction: all four families or no handle\<close>










section \<open>The stop function of FollowOvsFlows\<close>








text \<open>
  The failure of the datapath lookup inside \<open>FollowOvsFlows\<close>, in any environment: the
  error is returned with a nil channel and a nil stop function, in the state the lookup
  left, and the lookup has not closed the socket of the handle.
\<close>

lemma lookupDatapath_no_close:
  "closes sk (added s (snd (lookupDatapath env dpif name s))) = 0"
proof -
  have a1: "added s (snd (call_LookupDatapath env dpif name s)) = [LookupDatapath_ev name]"
    by (rule added_append) (rule trace_call_LookupDatapath)
  have a2: "added s (snd (call_LookupDatapathByID env dpif i
        (snd (call_LookupDatapath env dpif name s)))) =
      [LookupDatapath_ev name, LookupDatapathByID_ev i]" for i
    by (rule added_append) (simp add: trace_call_LookupDatapathByID trace_call_LookupDatapath)
  show ?thesis
    unfolding lookupDatapath_eq Let_def
    by (simp add: a1 a2 closes_def split: sum.splits option.splits)
qed

lemma FollowOvsFlows_lookup_failure:
  "NewDpifOvs env True s = (Inr dpif, s1) \<Longrightarrow>
   lookupDatapath env dpif ''ovs-system'' s1 = (Inl err, s2) \<Longrightarrow>
     FollowOvsFlows env s = ((None, None, Some err), s2)
     \<and> closes (sock dpif) (added s1 s2) = 0"
  using lookupDatapath_no_close [of "sock dpif" s1 env dpif "''ovs-system''"]
  by (simp add: FollowOvsFlows_def)

section \<open>Runs on the small kernel\<close>

lemma kern_lookupFamily:
  "lookupFamily kern_env sk name
     \<lparr>kernel = \<lparr>module_loaded = True, autoload = au, next_fd = n, datapaths = dps, follow = fw\<rparr>,
      triedLoadOpenvswitchModule = tried, trace = tr\<rparr> =
   (Inr \<lparr>id_fam = length name, mcGroups = [name \<mapsto> 5]\<rparr>,
    \<lparr>kernel = \<lparr>module_loaded = True, autoload = au, next_fd = n, datapaths = dps, follow = fw\<rparr>,
      triedLoadOpenvswitchModule = tried,
      trace = tr @ [LookupGenlFamily_ev sk name (Inr \<lparr>id_fam = length name, mcGroups = [name \<mapsto> 5]\<rparr>)]\<rparr>)"
  by (simp add: lookupFamily_def call_LookupGenlFamily_def kern_env_def log_def)

lemma kern_newDpifType:
  "newDpifType kern_env t
     \<lparr>kernel = \<lparr>module_loaded = True, autoload = au, next_fd = n, datapaths = dps, follow = fw\<rparr>,
      triedLoadOpenvswitchModule = tried, trace = tr\<rparr> =
   (Inr \<lparr>sock = \<lparr>fd = n, sockType = t\<rparr>,
         families = map (\<lambda>name. \<lparr>id_fam = length name, mcGroups = [name \<mapsto> 5]\<rparr>) familyNames\<rparr>,
    \<lparr>kernel = \<lparr>module_loaded = True, autoload = au, next_fd = n + 1, datapaths = dps, follow = fw\<rparr>,
      triedLoadOpenvswitchModule = tried,
      trace = tr @ OpenNetlinkSocket_ev t (Inr \<lparr>fd = n, sockType = t\<rparr>) #
        map (\<lambda>name. LookupGenlFamily_ev \<lparr>fd = n, sockType = t\<rparr> name
               (Inr \<lparr>id_fam = length name, mcGroups = [name \<mapsto> 5]\<rparr>)) familyNames\<rparr>)"
proof -
  have o: "call_OpenNetlinkSocket kern_env t
     \<lparr>kernel = \<lparr>module_loaded = True, autoload = au, next_fd = n, datapaths = dps, follow = fw\<rparr>,
      triedLoadOpenvswitchModule = tried, trace = tr\<rparr> =
     (Inr \<lparr>fd = n, sockType = t\<rparr>,
      \<lparr>kernel = \<lparr>module_loaded = True, autoload = au, next_fd = n + 1, datapaths = dps, follow = fw\<rparr>,
      triedLoadOpenvswitchModule = tried,
      trace = tr @ [OpenNetlinkSocket_ev t (Inr \<lparr>fd = n, sockType = t\<rparr>)]\<rparr>)"
    by (simp add: call_OpenNetlinkSocket_def kern_env_def log_def)
  show ?thesis
    unfolding newDpifType_def o
    by (simp add: newDpifType_loop.simps kern_lookupFamily FAMILY_COUNT_def familyNames_def
        GenlFamily_zero_def numeral_eq_Suc)
qed

lemma kern_getMCGroup:
  "getMCGroup \<lparr>sock = sk,
       families = map (\<lambda>name. \<lparr>id_fam = length name, mcGroups = [name \<mapsto> 5]\<rparr>) familyNames\<rparr>
     FLOW ''ovs_flow'' = Inr 5"
  by (simp add: getMCGroup_def familyNames_def FLOW_def)

lemma kern_NewDpifOvs:
  "NewDpifOvs kern_env True
     \<lparr>kernel = \<lparr>module_loaded = True, autoload = au, next_fd = n, datapaths = dps, follow = fw\<rparr>,
      triedLoadOpenvswitchModule = tried, trace = tr\<rparr> =
   (Inr \<lparr>sock = \<lparr>fd = n, sockType = NETLINK_GENERIC\<rparr>,
         families = map (\<lambda>name. \<lparr>id_fam = length name, mcGroups = [name \<mapsto> 5]\<rparr>) familyNames\<rparr>,
    \<lparr>kernel = \<lparr>module_loaded = True, autoload = au, next_fd = n + 1, datapaths = dps, follow = fw\<rparr>,
      triedLoadOpenvswitchModule = tried,
      trace = tr @ OpenNetlinkSocket_ev NETLINK_GENERIC (Inr \<lparr>fd = n, sockType = NETLINK_GENERIC\<rparr>) #
        map (\<lambda>name. LookupGenlFamily_ev \<lparr>fd = n, sockType = NETLINK_GENERIC\<rparr> name
               (Inr \<lparr>id_fam = length name, mcGroups = [name \<mapsto> 5]\<rparr>)) familyNames @
        [SetsockoptInt_ev n SOL_NETLINK NETLINK_ADD_MEMBERSHIP 5]\<rparr>)"
  unfolding NewDpifOvs_def kern_newDpifType
  by (simp add: kern_getMCGroup call_SetsockoptInt_def kern_env_def log_def)

lemma ParseUint_ovs_system: "ParseUint ''ovs-system'' = None"
  by (simp add: ParseUint_def digit_val_def)

lemma kern_lookupDatapath_missing:
  "lookupDatapath kern_env dpif ''ovs-system''
     \<lparr>kernel = \<lparr>module_loaded = ld, autoload = au, next_fd = n, datapaths = [], follow = fw\<rparr>,
      triedLoadOpenvswitchModule = tried, trace = tr\<rparr> =
   (Inl (cannot_find_datapath ''ovs-system''),
    \<lparr>kernel = \<lparr>module_loaded = ld, autoload = au, next_fd = n, datapaths = [], follow = fw\<rparr>,
      triedLoadOpenvswitchModule = tried, trace = tr @ [LookupDatapath_ev ''ovs-system'']\<rparr>)"
  by (simp add: lookupDatapath_def call_LookupDatapath_def kern_env_def log_def
      ParseUint_ovs_system)


lemma kern_FollowOvsFlows_missing:
  "FollowOvsFlows kern_env (kern_state True False []) =
     ((None, None, Some (cannot_find_datapath ''ovs-system'')),
      \<lparr>kernel = \<lparr>module_loaded = True, autoload = False, next_fd = 4, datapaths = [],
                 follow = kern_follow0\<rparr>,
       triedLoadOpenvswitchModule = False,
       trace = OpenNetlinkSocket_ev NETLINK_GENERIC (Inr \<lparr>fd = 3, sockType = NETLINK_GENERIC\<rparr>) #
        map (\<lambda>name. LookupGenlFamily_ev \<lparr>fd = 3, sockType = NETLINK_GENERIC\<rparr> name
               (Inr \<lparr>id_fam = length name, mcGroups = [name \<mapsto> 5]\<rparr>)) familyNames @
        [SetsockoptInt_ev 3 SOL_NETLINK NETLINK_ADD_MEMBERSHIP 5,
         LookupDatapath_ev ''ovs-system'']\<rparr>)"
  unfolding FollowOvsFlows_def kern_state_def kern_NewDpifOvs
  by (simp add: kern_lookupDatapath_missing)

text \<open>
  C1, at the failing input: the module is loaded and no datapath is named "ovs-system".
  \<open>FollowOvsFlows\<close> returns the error "Cannot find datapath" with a nil channel and a
  nil stop function, and the socket that \<open>NewDpifOvs\<close> opened (descriptor 3) is still
  open: the trace holds no close of it.
\<close>

theorem FollowOvsFlows_leaves_socket_open_on_missing_datapath:
  "fst (FollowOvsFlows kern_env (kern_state True False [])) =
     (None, None, Some (cannot_find_datapath ''ovs-system''))
   \<and> open_sockets (trace (snd (FollowOvsFlows kern_env (kern_state True False [])))) [] =
       [\<lparr>fd = 3, sockType = NETLINK_GENERIC\<rparr>]
   \<and> closes \<lparr>fd = 3, sockType = NETLINK_GENERIC\<rparr>
        (trace (snd (FollowOvsFlows kern_env (kern_state True False [])))) = 0"
  unfolding kern_FollowOvsFlows_missing
  by (simp add: familyNames_def closes_def)












text \<open>
  Family resolution with the module absent and an autoload probe that loads nothing: two
  queries, both \<open>ENOENT\<close>, and the result is \<open>familyUnavailableError\<close>.
\<close>

lemma kern_call_LookupGenlFamily_unloaded:
  "call_LookupGenlFamily kern_env sk name
     \<lparr>kernel = \<lparr>module_loaded = False, autoload = au, next_fd = n, datapaths = dps, follow = fw\<rparr>,
      triedLoadOpenvswitchModule = tried, trace = tr\<rparr> =
   (Inl (NetlinkError ENOENT),
    \<lparr>kernel = \<lparr>module_loaded = False, autoload = au, next_fd = n, datapaths = dps, follow = fw\<rparr>,
      triedLoadOpenvswitchModule = tried,
      trace = tr @ [LookupGenlFamily_ev sk name (Inl (NetlinkError ENOENT))]\<rparr>)"
  by (simp add: call_LookupGenlFamily_def kern_env_def log_def)

lemma kern_Once_Do_no_autoload:
  "Once_Do (loadOpenvswitchModule kern_env)
     \<lparr>kernel = \<lparr>module_loaded = False, autoload = False, next_fd = n, datapaths = dps, follow = fw\<rparr>,
      triedLoadOpenvswitchModule = False, trace = tr\<rparr> =
    \<lparr>kernel = \<lparr>module_loaded = False, autoload = False, next_fd = n + 1, datapaths = dps, follow = fw\<rparr>,
      triedLoadOpenvswitchModule = True,
      trace = tr @ [Once_Do_ev, loadOpenvswitchModule_ev]\<rparr>"
  by (simp add: Once_Do_def loadOpenvswitchModule_def kern_env_def log_def)

theorem lookupFamily_retries_once_on_ENOENT_witness:
  "fst (lookupFamily kern_env \<lparr>fd = 3, sockType = NETLINK_GENERIC\<rparr> ''ovs_flow''
          (kern_state False False [])) = Inl (familyUnavailableError ''ovs_flow'')
   \<and> filter is_query
        (added (kern_state False False [])
           (snd (lookupFamily kern_env \<lparr>fd = 3, sockType = NETLINK_GENERIC\<rparr> ''ovs_flow''
                   (kern_state False False [])))) =
       [LookupGenlFamily_ev \<lparr>fd = 3, sockType = NETLINK_GENERIC\<rparr> ''ovs_flow''
          (Inl (NetlinkError ENOENT)),
        LookupGenlFamily_ev \<lparr>fd = 3, sockType = NETLINK_GENERIC\<rparr> ''ovs_flow''
          (Inl (NetlinkError ENOENT))]
   \<and> IsKernelLacksODPError (familyUnavailableError ''ovs_flow'')
   \<and> \<not> IsKernelLacksODPError (NetlinkError ENOENT)"
  using lookupFamily_retries_once_on_ENOENT
    [of kern_env "\<lparr>fd = 3, sockType = NETLINK_GENERIC\<rparr>" "''ovs_flow''"
        "kern_state False False []" "NetlinkError ENOENT"]
  by (simp add: Let_def kern_state_def kern_call_LookupGenlFamily_unloaded
      kern_Once_Do_no_autoload)

lemma ParseUint_42: "ParseUint ''42'' = Some 42"
  by (simp add: ParseUint_def digit_val_def)

lemma ParseUint_nonexistent: "ParseUint ''nonexistent'' = None"
  by (simp add: ParseUint_def digit_val_def)

text \<open>
  Datapath resolution on a kernel whose only datapath is "br0" with id 42: "42" resolves
  through the id to the name "br0"; "nonexistent" and "7" give the same kind of error.
\<close>

theorem lookupDatapath_name_then_id_witness:
  "fst (lookupDatapath kern_env kern_dpif ''42'' (kern_state True False [(''br0'', 42)])) =
     Inr (DatapathHandle 42, ''br0'')
   \<and> added (kern_state True False [(''br0'', 42)])
        (snd (lookupDatapath kern_env kern_dpif ''42'' (kern_state True False [(''br0'', 42)]))) =
       [LookupDatapath_ev ''42'', LookupDatapathByID_ev 42]
   \<and> fst (lookupDatapath kern_env kern_dpif ''nonexistent''
            (kern_state True False [(''br0'', 42)])) =
       Inl (cannot_find_datapath ''nonexistent'')
   \<and> fst (lookupDatapath kern_env kern_dpif ''7'' (kern_state True False [(''br0'', 42)])) =
       Inl (cannot_find_datapath ''7'')"
  using lookupDatapath_name_then_id
      [of kern_env kern_dpif "''42''" "kern_state True False [(''br0'', 42)]"]
    lookupDatapath_name_then_id
      [of kern_env kern_dpif "''nonexistent''" "kern_state True False [(''br0'', 42)]"]
    lookupDatapath_name_then_id
      [of kern_env kern_dpif "''7''" "kern_state True False [(''br0'', 42)]"]
  by (simp add: Let_def kern_state_def call_LookupDatapath_def call_LookupDatapathByID_def
      kern_env_def log_def ParseUint_42 ParseUint_nonexistent ParseUint_def digit_val_def)

text \<open>The lookup by name of "ovs-system" succeeds and the identifier comes back.\<close>

theorem lookupDatapath_by_name_returns_identifier_witness:
  "fst (call_LookupDatapath kern_env \<lparr>sock = \<lparr>fd = 3, sockType = NETLINK_GENERIC\<rparr>, families = []\<rparr>
          ''ovs-system'' (kern_state True False [(''ovs-system'', 1)])) = Inr (DatapathHandle 1)
   \<and> fst (lookupDatapath kern_env \<lparr>sock = \<lparr>fd = 3, sockType = NETLINK_GENERIC\<rparr>, families = []\<rparr>
          ''ovs-system'' (kern_state True False [(''ovs-system'', 1)])) =
       Inr (DatapathHandle 1, ''ovs-system'')"
proof -
  have h: "fst (call_LookupDatapath kern_env
      \<lparr>sock = \<lparr>fd = 3, sockType = NETLINK_GENERIC\<rparr>, families = []\<rparr>
      ''ovs-system'' (kern_state True False [(''ovs-system'', 1)])) = Inr (DatapathHandle 1)"
    by (simp add: call_LookupDatapath_def kern_env_def kern_state_def)
  from h lookupDatapath_by_name_returns_identifier [OF h] show ?thesis by simp
qed

text \<open>
  Reopening a handle while the module is absent: the socket opens and the families are
  those of the handle.
\<close>

theorem Reopen_copies_families_witness:
  "(case fst (Reopen kern_env
        \<lparr>sock = \<lparr>fd = 3, sockType = NETLINK_GENERIC\<rparr>,
         families = map (\<lambda>name. \<lparr>id_fam = length name, mcGroups = [name \<mapsto> 5]\<rparr>) familyNames\<rparr>
        (kern_state False False [])) of
      Inl err \<Rightarrow> False
    | Inr dpif' \<Rightarrow>
        sock dpif' = \<lparr>fd = 3, sockType = NETLINK_GENERIC\<rparr>
        \<and> Families dpif' =
            map (\<lambda>name. \<lparr>id_fam = length name, mcGroups = [name \<mapsto> 5]\<rparr>) familyNames)"
  using Reopen_copies_families [of kern_env
        "\<lparr>sock = \<lparr>fd = 3, sockType = NETLINK_GENERIC\<rparr>,
         families = map (\<lambda>name. \<lparr>id_fam = length name, mcGroups = [name \<mapsto> 5]\<rparr>) familyNames\<rparr>"
        "kern_state False False []"]
  by (simp add: Let_def Reopen_def call_OpenNetlinkSocket_def kern_env_def kern_state_def
      log_def Families_def)



section \<open>Message headers: round trip and reply validation\<close>

lemma align_ge: "n \<le> align n 4"
  by (simp add: align_def)

lemma load32_store32:
  "p + 4 \<le> length bs \<Longrightarrow> load32 (store32 bs p w) p = w"
proof -
  assume len: "p + 4 \<le> length bs"
  have w: "or (ucast (ucast w :: 8 word))
       (or (push_bit 8 (ucast (ucast (drop_bit 8 w) :: 8 word)))
         (or (push_bit 16 (ucast (ucast (drop_bit 16 w) :: 8 word)))
             (push_bit 24 (ucast (ucast (drop_bit 24 w) :: 8 word))))) = w"
  proof (rule bit_word_eqI)
    fix n
    assume n: "n < LENGTH(32)"
    consider "n < 8" | "8 \<le> n" "n < 16" | "16 \<le> n" "n < 24" | "24 \<le> n"
      by linarith
    then show "bit (or (ucast (ucast w :: 8 word))
       (or (push_bit 8 (ucast (ucast (drop_bit 8 w) :: 8 word)))
         (or (push_bit 16 (ucast (ucast (drop_bit 16 w) :: 8 word)))
             (push_bit 24 (ucast (ucast (drop_bit 24 w) :: 8 word))))) :: 32 word) n = bit w n"
      using n by cases (auto simp: bit_simps)
  qed
  from len show ?thesis
    by (simp add: load32_def store32_def w)
qed

text \<open>
  C8. For every datapath id \<open>x\<close> of 32 bits (0 and the largest value included) and every
  builder: after \<open>putOvsHeader\<close> has written the header with id \<open>x\<close>, a parser over
  the built buffer, placed where the builder stood before the write, takes the header
  without error, \<open>datapathID\<close> of that header is \<open>x\<close>, and the parser has consumed
  the buffer to its end.
\<close>

theorem ovs_header_roundtrip:
  "case takeOvsHeader \<lparr>data = buf (putOvsHeader nlmsg x), pos = length (buf nlmsg)\<rparr> of
     Inl err \<Rightarrow> False
   | Inr (ovshdr, m) \<Rightarrow> datapathID ovshdr = x \<and> pos m = length (data m)"
proof -
  define p where "p = align (length (buf nlmsg)) 4"
  have ge: "length (buf nlmsg) \<le> p" unfolding p_def by (rule align_ge)
  define bs where "bs = buf nlmsg @ replicate (p + 4 - length (buf nlmsg)) 0"
  have len: "length bs = p + 4" using ge by (simp add: bs_def)
  have put: "buf (putOvsHeader nlmsg x) = store32 bs p x"
    by (simp add: putOvsHeader_def AlignGrow_def Let_def NLMSG_ALIGNTO_def SizeofOvsHeader_def
        p_def bs_def)
  have slen: "length (store32 bs p x) = p + 4"
    by (simp add: store32_def len)
  have ld: "load32 (store32 bs p x) p = x"
    by (rule load32_store32) (simp add: len)
  show ?thesis
    unfolding put
    by (simp add: takeOvsHeader_def AlignAdvance_def Let_def NLMSG_ALIGNTO_def
        SizeofOvsHeader_def p_def [symmetric] slen ovsHeaderAt_def ld datapathID_def)
qed

text \<open>The round trip of the ids 0 and \<open>2^32 - 1\<close> after three bytes of payload.\<close>

theorem ovs_header_roundtrip_witness:
  "(case takeOvsHeader \<lparr>data = buf (putOvsHeader \<lparr>buf = [1, 2, 3]\<rparr> 0),
                         pos = length (buf \<lparr>buf = [1, 2, 3]\<rparr>)\<rparr> of
      Inl err \<Rightarrow> False
    | Inr (ovshdr, m) \<Rightarrow> datapathID ovshdr = 0 \<and> pos m = length (data m))
   \<and> (case takeOvsHeader \<lparr>data = buf (putOvsHeader \<lparr>buf = [1, 2, 3]\<rparr> 4294967295),
                           pos = length (buf \<lparr>buf = [1, 2, 3]\<rparr>)\<rparr> of
      Inl err \<Rightarrow> False
    | Inr (ovshdr, m) \<Rightarrow> datapathID ovshdr = 4294967295 \<and> pos m = length (data m))"
  by (rule conjI
        [OF ovs_header_roundtrip [where nlmsg = "\<lparr>buf = [1, 2, 3]\<rparr>" and x = 0]
            ovs_header_roundtrip [where nlmsg = "\<lparr>buf = [1, 2, 3]\<rparr>" and x = 4294967295]])

lemma data_AlignAdvance: "AlignAdvance a n m = Inr (p, m') \<Longrightarrow> data m' = data m"
  by (auto simp: AlignAdvance_def Let_def split: if_splits)

lemma CheckGenlMsghdr_eq:
  "AlignAdvance NLMSG_ALIGNTO SizeofGenlMsghdr m = Inr (p, m') \<Longrightarrow>
   CheckGenlMsghdr m cmd altCmd =
     (if uint (data m ! p) = cmd \<or> uint (data m ! p) = altCmd
      then Inr (genlMsghdrAt (data m) p, m')
      else Inl (errorString ''generic netlink response has wrong cmd''))"
  by (frule data_AlignAdvance) (simp add: CheckGenlMsghdr_def Let_def genlMsghdrAt_def)

text \<open>
  C3. For a family index in range, a reply whose netlink header passes the check against
  the family's id, whose generic header is present and whose subsystem header can be
  taken: \<open>checkNlMsgHeaders\<close> accepts the reply exactly when its command equals the
  expected command, or the family is DATAPATH, VPORT or FLOW and the command equals
  \<open>OVS_DP_CMD_NEW\<close>, \<open>OVS_VPORT_CMD_NEW\<close> or \<open>OVS_FLOW_CMD_NEW\<close> respectively; it then
  returns the two headers. For any other family (PACKET) only the expected command is
  accepted. Every other command gives the error of the command check.
\<close>

theorem checkNlMsgHeaders_command_tolerance:
  assumes fam: "0 \<le> family" "family < int (length (families dpif))"
    and e: "ExpectNlMsghdr g (id_fam (families dpif ! nat family)) msg = Inr msg1"
    and a: "AlignAdvance NLMSG_ALIGNTO SizeofGenlMsghdr msg1 = Inr (p, msg2)"
    and t: "takeOvsHeader msg2 = Inr (ovshdr, msg3)"
  shows "checkNlMsgHeaders g dpif msg family cmd =
     Some (if uint (data msg1 ! p) = cmd
              \<or> (family = int DATAPATH \<and> uint (data msg1 ! p) = OVS_DP_CMD_NEW g)
              \<or> (family = int VPORT \<and> uint (data msg1 ! p) = OVS_VPORT_CMD_NEW g)
              \<or> (family = int FLOW \<and> uint (data msg1 ! p) = OVS_FLOW_CMD_NEW g)
           then Inr (genlMsghdrAt (data msg1) p, ovshdr, msg3)
           else Inl (errorString ''generic netlink response has wrong cmd''))"
proof -
  have neg: "uint (data msg1 ! p) \<noteq> - 1"
    using uint_ge_0 [of "data msg1 ! p"] by linarith
  show ?thesis
    using fam e t neg
    by (simp add: checkNlMsgHeaders_def CheckGenlMsghdr_eq [OF a]
        DATAPATH_def VPORT_def FLOW_def)
qed


text \<open>
  A reply with the command 1 ("new") to a request with command 3: accepted for the
  DATAPATH family, refused for the PACKET family.
\<close>

lemma kern_ExpectNlMsghdr:
  "ExpectNlMsghdr kern_genl (unat fid) (reply_msg fid c i) = Inr ((reply_msg fid c i)\<lparr>pos := 16\<rparr>)"
  by (simp add: kern_genl_def reply_msg_def AlignAdvance_def align_def NLMSG_ALIGNTO_def)

theorem checkNlMsgHeaders_command_tolerance_witness:
  "checkNlMsgHeaders kern_genl kern_dpif (reply_msg 12 1 7) (int DATAPATH) 3 =
     Some (Inr (\<lparr>Cmd = 1, Version = 1\<rparr>, \<lparr>DpIfIndex = 7\<rparr>, (reply_msg 12 1 7)\<lparr>pos := 24\<rparr>))
   \<and> checkNlMsgHeaders kern_genl kern_dpif (reply_msg 10 1 7) (int PACKET) 3 =
     Some (Inl (errorString ''generic netlink response has wrong cmd''))"
proof -
  have i1: "id_fam (families kern_dpif ! nat (int DATAPATH)) = unat (12 :: 8 word)"
    by (simp add: kern_dpif_def familyNames_def DATAPATH_def)
  have i2: "id_fam (families kern_dpif ! nat (int PACKET)) = unat (10 :: 8 word)"
    by (simp add: kern_dpif_def familyNames_def PACKET_def)
  have e1: "ExpectNlMsghdr kern_genl (id_fam (families kern_dpif ! nat (int DATAPATH)))
      (reply_msg 12 1 7) = Inr ((reply_msg 12 1 7)\<lparr>pos := 16\<rparr>)"
    unfolding i1 by (rule kern_ExpectNlMsghdr)
  have e2: "ExpectNlMsghdr kern_genl (id_fam (families kern_dpif ! nat (int PACKET)))
      (reply_msg 10 1 7) = Inr ((reply_msg 10 1 7)\<lparr>pos := 16\<rparr>)"
    unfolding i2 by (rule kern_ExpectNlMsghdr)
  have a: "AlignAdvance NLMSG_ALIGNTO SizeofGenlMsghdr ((reply_msg fid 1 7)\<lparr>pos := 16\<rparr>) =
      Inr (16, (reply_msg fid 1 7)\<lparr>pos := 20\<rparr>)" for fid
    by (simp add: reply_msg_def AlignAdvance_def align_def NLMSG_ALIGNTO_def SizeofGenlMsghdr_def)
  have t: "takeOvsHeader ((reply_msg fid 1 7)\<lparr>pos := 20\<rparr>) =
      Inr (\<lparr>DpIfIndex = 7\<rparr>, (reply_msg fid 1 7)\<lparr>pos := 24\<rparr>)" for fid
    by (simp add: reply_msg_def takeOvsHeader_def AlignAdvance_def align_def NLMSG_ALIGNTO_def
        SizeofOvsHeader_def ovsHeaderAt_def load32_def)
  have f1: "0 \<le> int DATAPATH" "int DATAPATH < int (length (families kern_dpif))"
    by (simp_all add: kern_dpif_def familyNames_def DATAPATH_def)
  have f2: "0 \<le> int PACKET" "int PACKET < int (length (families kern_dpif))"
    by (simp_all add: kern_dpif_def familyNames_def PACKET_def)
  from checkNlMsgHeaders_command_tolerance [OF f1 e1 a t, of 3]
    checkNlMsgHeaders_command_tolerance [OF f2 e2 a t, of 3]
  show ?thesis
    by (simp add: reply_msg_def genlMsghdrAt_def kern_genl_def DATAPATH_def VPORT_def
        FLOW_def PACKET_def)
qed

end
